theory Spec2Isabelle
  imports Complex_Main "HOL-Library.Sublist"
begin

section \<open>Strings\<close>

text \<open>
  A string of the page is a list of code units. \<^typ>\<open>char\<close> has 256 values, so the
  model covers the code units U+0000 to U+00FF; the white space of the language in that
  range is TAB, LF, VT, FF, CR, SP and NBSP.
\<close>

definition isWhiteSpace :: "char \<Rightarrow> bool" where
  "isWhiteSpace c =
     (c \<in> set [CHR 0x09, CHR 0x0A, CHR 0x0B, CHR 0x0C, CHR 0x0D, CHR 0x20, CHR 0xA0])"

definition trimStart :: "string \<Rightarrow> string" where
  "trimStart s = dropWhile isWhiteSpace s"

definition trimEnd :: "string \<Rightarrow> string" where
  "trimEnd s = rev (dropWhile isWhiteSpace (rev s))"

definition trim :: "string \<Rightarrow> string" where
  "trim s = trimEnd (trimStart s)"

text \<open>\<open>Array.prototype.join\<close> on an array of strings.\<close>

fun join :: "string \<Rightarrow> string list \<Rightarrow> string" where
  "join sep [] = []"
| "join sep [x] = x"
| "join sep (x # y # ys) = x @ sep @ join sep (y # ys)"

text \<open>Decimal digits of an integer, as the language prints a safe integer.\<close>

fun show_nat :: "nat \<Rightarrow> string" where
  "show_nat n =
     (if n < 10 then [''0123456789'' ! n]
      else show_nat (n div 10) @ [''0123456789'' ! (n mod 10)])"

declare show_nat.simps [simp del]

definition show_int :: "int \<Rightarrow> string" where
  "show_int k = (if k < 0 then CHR ''-'' # show_nat (nat (- k)) else show_nat (nat k))"

definition digitValue :: "char \<Rightarrow> nat option" where
  "digitValue c = map_of
     [(CHR ''0'', 0), (CHR ''1'', 1), (CHR ''2'', 2), (CHR ''3'', 3), (CHR ''4'', 4),
      (CHR ''5'', 5), (CHR ''6'', 6), (CHR ''7'', 7), (CHR ''8'', 8), (CHR ''9'', 9),
      (CHR ''a'', 10), (CHR ''b'', 11), (CHR ''c'', 12), (CHR ''d'', 13), (CHR ''e'', 14),
      (CHR ''f'', 15),
      (CHR ''A'', 10), (CHR ''B'', 11), (CHR ''C'', 12), (CHR ''D'', 13), (CHR ''E'', 14),
      (CHR ''F'', 15)] c"

definition isRadixDigit :: "nat \<Rightarrow> char \<Rightarrow> bool" where
  "isRadixDigit R c = (case digitValue c of None \<Rightarrow> False | Some d \<Rightarrow> d < R)"

definition mathInt :: "nat \<Rightarrow> string \<Rightarrow> int" where
  "mathInt R Z =
     foldl (\<lambda>acc c. case digitValue c of None \<Rightarrow> acc | Some d \<Rightarrow> acc * int R + int d) 0 Z"


section \<open>Numbers\<close>

text \<open>
  A value of the type \<open>number\<close>. \<open>Finite r\<close> carries the number's mathematical value
  (both zeros are \<open>Finite 0\<close>). Comparison with the thresholds and with the question
  ids is exact on these values.
\<close>

datatype number = NaN | NegInfinity | Finite real | Infinity

text \<open>The operators \<open>>=\<close>, \<open><\<close> and \<open>===\<close> on numbers: every comparison with NaN is false.\<close>

fun number_ge :: "number \<Rightarrow> number \<Rightarrow> bool" where
  "number_ge NaN _ = False"
| "number_ge _ NaN = False"
| "number_ge Infinity _ = True"
| "number_ge _ NegInfinity = True"
| "number_ge NegInfinity _ = False"
| "number_ge _ Infinity = False"
| "number_ge (Finite a) (Finite b) = (b \<le> a)"

fun number_lt :: "number \<Rightarrow> number \<Rightarrow> bool" where
  "number_lt NaN _ = False"
| "number_lt _ NaN = False"
| "number_lt Infinity _ = False"
| "number_lt _ NegInfinity = False"
| "number_lt NegInfinity _ = True"
| "number_lt _ Infinity = True"
| "number_lt (Finite a) (Finite b) = (a < b)"

fun strict_eq :: "number \<Rightarrow> number \<Rightarrow> bool" where
  "strict_eq NaN _ = False"
| "strict_eq _ NaN = False"
| "strict_eq a b = (a = b)"

text \<open>
  What the page takes from its host: the locale's date format, and the two conversions
  to text whose result the language leaves to the implementation or that depend on the
  binary representation of the number (the digits of a number that is not a safe
  integer, the source text of a built-in).
\<close>

record env =
  toLocaleDateString :: "string \<Rightarrow> string"
  numberText :: "real \<Rightarrow> string"
  nativeText :: "string \<Rightarrow> string"

text \<open>
  \<open>Number::toString\<close>, as a template literal and a text child apply it. A safe integer
  (at most \<open>2 ^ 53\<close> in absolute value) prints as its decimal digits.
\<close>

definition Number_toString :: "env \<Rightarrow> number \<Rightarrow> string" where
  "Number_toString e x =
     (case x of
        NaN \<Rightarrow> ''NaN''
      | Infinity \<Rightarrow> ''Infinity''
      | NegInfinity \<Rightarrow> ''-Infinity''
      | Finite r \<Rightarrow>
          if r = of_int \<lfloor>r\<rfloor> \<and> \<bar>r\<bar> \<le> 2 ^ 53 then show_int \<lfloor>r\<rfloor> else numberText e r)"

text \<open>
  The number value of an integer: itself up to \<open>2 ^ 53\<close> in absolute value; beyond, the
  nearest double (53 significant bits, a tie going to the even one), and an infinity from
  \<open>2 ^ 1024 - 2 ^ 970\<close> on.
\<close>

function bitLength :: "int \<Rightarrow> nat" where
  "bitLength m = (if m \<le> 0 then 0 else Suc (bitLength (m div 2)))"
  by pat_completeness auto
termination
  by (relation "measure nat") auto

declare bitLength.simps [simp del]

definition roundToDouble :: "int \<Rightarrow> number" where
  "roundToDouble n =
     (let m = \<bar>n\<bar>
      in if m \<le> 2 ^ 53 then Finite (of_int n)
         else
           let e = bitLength m - 53;
               q = m div 2 ^ e;
               r = m mod 2 ^ e;
               q = (if 2 ^ (e - 1) < r \<or> (r = 2 ^ (e - 1) \<and> odd q) then q + 1 else q);
               v = q * 2 ^ e
           in if 2 ^ 1024 \<le> v then (if n < 0 then NegInfinity else Infinity)
              else Finite (of_int (if n < 0 then - v else v)))"

text \<open>
  \<open>parseInt(string)\<close> with no radix: leading white space is skipped, a sign is read, a
  prefix \<open>0x\<close> or \<open>0X\<close> selects radix 16, and the longest run of digits is the value; no
  digit gives NaN. The result is the number value of the signed integer the digits
  denote (for more than 20 decimal digits the language lets an implementation
  approximate the integer first; the model rounds the exact one, as the common engines
  do).
\<close>

definition parseInt :: "string \<Rightarrow> number" where
  "parseInt inputString =
     (let S = dropWhile isWhiteSpace inputString;
          sign = (if S \<noteq> [] \<and> hd S = CHR ''-'' then - 1 else (1::int));
          S = (if S \<noteq> [] \<and> (hd S = CHR ''+'' \<or> hd S = CHR ''-'') then tl S else S);
          hex = (take 2 S = ''0x'' \<or> take 2 S = ''0X'');
          R = (if hex then 16 else 10);
          S = (if hex then drop 2 S else S);
          Z = takeWhile (isRadixDigit R) S
      in if Z = [] then NaN else roundToDouble (sign * mathInt R Z))"


section \<open>Objects\<close>

text \<open>
  A plain object is the list of its own enumerable properties in creation order, keys
  being strings. \<open>Object.entries\<close> lists the keys that are array indices first, in
  ascending numeric order, then the other keys in creation order.
\<close>

definition isArrayIndex :: "string \<Rightarrow> bool" where
  "isArrayIndex k =
     (k \<noteq> [] \<and> list_all (isRadixDigit 10) k \<and> (k = ''0'' \<or> hd k \<noteq> CHR ''0'') \<and>
      mathInt 10 k \<le> 4294967294)"

definition Object_entries :: "(string \<times> 'v) list \<Rightarrow> (string \<times> 'v) list" where
  "Object_entries obj =
     sort_key (\<lambda>p. mathInt 10 (fst p)) (filter (\<lambda>p. isArrayIndex (fst p)) obj) @
     filter (\<lambda>p. \<not> isArrayIndex (fst p)) obj"

text \<open>
  Reading a property of an object literal, \<open>obj[k]\<close>: an own property first, then the
  members every object literal inherits from \<open>Object.prototype\<close>. An inherited member is
  a built-in function (for \<open>__proto__\<close>, the prototype object), never a string.
\<close>

datatype jsvalue = Str string | Inherited string

definition Object_prototype :: "string list" where
  "Object_prototype =
     [''constructor'', ''hasOwnProperty'', ''isPrototypeOf'', ''propertyIsEnumerable'',
      ''toLocaleString'', ''toString'', ''valueOf'', ''__proto__'', ''__defineGetter__'',
      ''__defineSetter__'', ''__lookupGetter__'', ''__lookupSetter__'']"

definition getProperty :: "(string \<times> string) list \<Rightarrow> string \<Rightarrow> jsvalue option" where
  "getProperty obj k =
     (case map_of obj k of
        Some v \<Rightarrow> Some (Str v)
      | None \<Rightarrow> if k \<in> set Object_prototype then Some (Inherited k) else None)"

text \<open>Truthiness: the empty string is falsy, functions and objects are truthy.\<close>

fun truthy :: "jsvalue \<Rightarrow> bool" where
  "truthy (Str s) = (s \<noteq> [])"
| "truthy (Inherited k) = True"

text \<open>A value inside a template literal.\<close>

fun toText :: "env \<Rightarrow> jsvalue \<Rightarrow> string" where
  "toText e (Str s) = s"
| "toText e (Inherited k) = nativeText e k"


section \<open>The data of the page\<close>

record AssessmentResult =
  overallScore :: number
  scores :: "(string \<times> number) list"
  insights :: string
  metrics :: "(string \<times> number) list"
  assessmentId :: string

record Question =
  id' :: number
  text' :: string
  category' :: string

definition questionBank :: "Question list" where
  "questionBank =
     [\<lparr>id' = Finite 1, text' = ''How would you rate your overall mood today?'',
        category' = ''emotional''\<rparr>,
      \<lparr>id' = Finite 2, text' = ''How well did you sleep last night?'', category' = ''sleep''\<rparr>,
      \<lparr>id' = Finite 3, text' = ''How stressed do you feel right now?'', category' = ''stress''\<rparr>,
      \<lparr>id' = Finite 4, text' = ''How satisfied are you with your social connections?'',
        category' = ''social''\<rparr>,
      \<lparr>id' = Finite 5, text' = ''How would you rate your energy levels?'',
        category' = ''physical''\<rparr>,
      \<lparr>id' = Finite 6, text' = ''How balanced do you feel between work and personal life?'',
        category' = ''balance''\<rparr>,
      \<lparr>id' = Finite 7, text' = ''How well are you taking care of yourself?'',
        category' = ''selfcare''\<rparr>,
      \<lparr>id' = Finite 8, text' = ''How clear and focused is your thinking today?'',
        category' = ''mental''\<rparr>,
      \<lparr>id' = Finite 9, text' = ''How well do you handle challenges?'',
        category' = ''resilience''\<rparr>,
      \<lparr>id' = Finite 10, text' = ''How satisfied are you with your life overall?'',
        category' = ''satisfaction''\<rparr>]"

definition scaleLabels :: "(string \<times> string) list" where
  "scaleLabels =
     [(''1'', ''Very Poor''), (''2'', ''Poor''), (''3'', ''Fair''), (''4'', ''Good''),
      (''5'', ''Excellent'')]"

text \<open>A record of the history, as the store returns it.\<close>

record HistoryRecord =
  overall_score :: number
  created_at :: string


section \<open>Derived data\<close>

record chartPoint =
  name :: string
  score' :: number
  date :: string

text \<open>The chart data: the history reversed, each record numbered from 1.\<close>

definition chartData :: "env \<Rightarrow> HistoryRecord list \<Rightarrow> chartPoint list" where
  "chartData e assessmentHistory =
     map (\<lambda>(index, assessment).
            \<lparr>name = ''Assessment '' @ show_nat (index + 1),
             score' = overall_score assessment,
             date = toLocaleDateString e (created_at assessment)\<rparr>)
         (enumerate 0 (rev assessmentHistory))"

record tableRow =
  questionId :: number
  question :: string
  category :: string
  answer :: jsvalue
  score :: number

text \<open>One row of the table, from one entry \<open>[questionId, answer]\<close> of the responses.\<close>

definition toRow :: "string \<times> string \<Rightarrow> tableRow" where
  "toRow entry =
     (let questionNum = parseInt (fst entry);
          found = find (\<lambda>q. strict_eq (id' q) questionNum) questionBank
      in \<lparr>questionId = questionNum,
          question =
            (case found of
               None \<Rightarrow> ''Unknown question''
             | Some q \<Rightarrow> if text' q = [] then ''Unknown question'' else text' q),
          category =
            (case found of
               None \<Rightarrow> ''Unknown''
             | Some q \<Rightarrow> if category' q = [] then ''Unknown'' else category' q),
          answer =
            (case getProperty scaleLabels (snd entry) of
               None \<Rightarrow> Str (snd entry)
             | Some v \<Rightarrow> if truthy v then v else Str (snd entry)),
          score = parseInt (snd entry)\<rparr>)"

definition tableData :: "(string \<times> string) list \<Rightarrow> tableRow list" where
  "tableData responses = map toRow (Object_entries responses)"

text \<open>The last cell of a row of the table, \<open>{row.score}/5\<close>.\<close>

definition scoreCell :: "env \<Rightarrow> tableRow \<Rightarrow> string" where
  "scoreCell e row = Number_toString e (score row) @ ''/5''"

definition getScoreColor :: "number \<Rightarrow> string" where
  "getScoreColor s =
     (if number_ge s (Finite 40) then ''text-green-500''
      else if number_ge s (Finite 30) then ''text-blue-500''
      else if number_ge s (Finite 20) then ''text-yellow-500''
      else ''text-red-500'')"

text \<open>
  The text \<open>downloadResults\<close> builds: the template literal, trimmed. \<open>now\<close> is the text
  of \<open>new Date().toLocaleString()\<close> at the time of the click.
\<close>

definition rowText :: "env \<Rightarrow> tableRow \<Rightarrow> string" where
  "rowText e row =
     ''Q: '' @ question row @ ''\<newline>'' @ ''A: '' @ toText e (answer row) @ ''\<newline>''"

definition content :: "env \<Rightarrow> string \<Rightarrow> AssessmentResult \<Rightarrow> (string \<times> string) list \<Rightarrow> string" where
  "content e now results responses =
     trim (''\<newline>Assessment Results\<newline>Date: '' @ now @
           ''\<newline>Overall Score: '' @ Number_toString e (overallScore results) @
           ''/50\<newline>\<newline>Insights:\<newline>'' @ insights results @
           ''\<newline>\<newline>Questions & Answers:\<newline>'' @
           join ''\<newline>'' (map (rowText e) (tableData responses)) @
           ''\<newline>    '')"

text \<open>
  What the click hands to the browser: the name of the file, from \<open>Date.now()\<close>, and
  the text (its percent-encoding into the link is transport only).
\<close>

record download =
  fileName :: string
  fileText :: string

definition downloadResults ::
  "env \<Rightarrow> string \<Rightarrow> int \<Rightarrow> AssessmentResult \<Rightarrow> (string \<times> string) list \<Rightarrow> download" where
  "downloadResults e now nowMs results responses =
     \<lparr>fileName = ''assessment-results-'' @ show_int nowMs @ ''.txt'',
      fileText = content e now results responses\<rparr>"


section \<open>The component\<close>

text \<open>The state of the component, with the initial values of its \<open>useState\<close> calls.\<close>

record pageState =
  results :: "AssessmentResult option"
  responses :: "(string \<times> string) list"
  loading :: bool
  userId :: "string option"
  assessmentHistory :: "HistoryRecord list"

definition initialState :: pageState where
  "initialState =
     \<lparr>results = None, responses = [], loading = True, userId = None, assessmentHistory = []\<rparr>"

text \<open>The payload of the navigation, \<open>location.state\<close>; each field may be absent.\<close>

record 'q locationState =
  results' :: "AssessmentResult option"
  responses' :: "(string \<times> string) list option"
  selectedQuestions :: "'q option"

text \<open>What the component does to the world outside it, in the order it does it.\<close>

datatype effect =
  GetSession
| Navigate string
| QueryAssessments string
| ConsoleError string
| UnhandledRejection string

text \<open>
  The answers of the two remote calls. The session lookup resolves with a session (its
  user id) or with none, or rejects. The query resolves with \<open>{ data, error }\<close> or
  rejects.
\<close>

datatype sessionReply = SessionRejected string | SessionResolved "string option"

datatype queryReply = QueryRejected string | QueryResolved "string option" "HistoryRecord list option"

type_synonym run = "pageState \<times> effect list"

text \<open>
  \<open>fetchAssessmentHistory\<close>: the query is issued; an error of the reply is thrown and
  every exception is caught and logged; data, if any, becomes the history.
\<close>

definition fetchAssessmentHistory :: "string \<Rightarrow> queryReply \<Rightarrow> run \<Rightarrow> run" where
  "fetchAssessmentHistory uid reply r =
     (let (st, trace) = r; trace = trace @ [QueryAssessments uid]
      in case reply of
           QueryRejected err \<Rightarrow> (st, trace @ [ConsoleError err])
         | QueryResolved (Some err) data \<Rightarrow> (st, trace @ [ConsoleError err])
         | QueryResolved None (Some data) \<Rightarrow> (st\<lparr>assessmentHistory := data\<rparr>, trace)
         | QueryResolved None None \<Rightarrow> (st, trace))"

text \<open>
  \<open>checkAuth\<close> after the session lookup has answered: no session navigates to the login
  route and returns; a session sets the user id and fetches the history.
\<close>

definition checkAuth :: "sessionReply \<Rightarrow> queryReply \<Rightarrow> run \<Rightarrow> run" where
  "checkAuth session reply r =
     (let (st, trace) = r
      in case session of
           SessionRejected err \<Rightarrow> (st, trace @ [UnhandledRejection err])
         | SessionResolved None \<Rightarrow> (st, trace @ [Navigate ''/auth''])
         | SessionResolved (Some uid) \<Rightarrow>
             fetchAssessmentHistory uid reply (st\<lparr>userId := Some uid\<rparr>, trace))"

text \<open>
  The effect of the component, run when the location changes: \<open>checkAuth\<close> starts (the
  session lookup is issued), the payload is read into the state, loading ends; the rest
  of \<open>checkAuth\<close> runs when the lookup has answered.
\<close>

definition useEffect ::
  "'q locationState option \<Rightarrow> sessionReply \<Rightarrow> queryReply \<Rightarrow> run \<Rightarrow> run" where
  "useEffect location_state session reply r =
     (let (st, trace) = r;
          trace = trace @ [GetSession];
          resultsData = (case location_state of None \<Rightarrow> None | Some p \<Rightarrow> results' p);
          responsesData = (case location_state of None \<Rightarrow> None | Some p \<Rightarrow> responses' p);
          st = (case resultsData of None \<Rightarrow> st | Some d \<Rightarrow> st\<lparr>results := Some d\<rparr>);
          st = (case responsesData of None \<Rightarrow> st | Some d \<Rightarrow> st\<lparr>responses := d\<rparr>);
          st = st\<lparr>loading := False\<rparr>
      in checkAuth session reply (st, trace))"

text \<open>Mounting the page: the effect runs once, on the initial state.\<close>

definition mount :: "'q locationState option \<Rightarrow> sessionReply \<Rightarrow> queryReply \<Rightarrow> run" where
  "mount location_state session reply = useEffect location_state session reply (initialState, [])"


section \<open>What the page shows\<close>

record resultsView =
  scoreColor :: string
  scoreShown :: number
  assessedOn :: string
  keyMetrics :: "(string \<times> number) list"
  insightsShown :: string
  trendChart :: "chartPoint list option"
  breakdown :: "tableRow list"

datatype view = Spinner | NoAssessmentData | ResultsPage resultsView

text \<open>The chart section is rendered when the chart data has more than one point.\<close>

definition chartSection :: "env \<Rightarrow> HistoryRecord list \<Rightarrow> chartPoint list option" where
  "chartSection e history =
     (let points = chartData e history in if length points > 1 then Some points else None)"

text \<open>
  The render function: the spinner while loading, the placeholder when there are no
  results (before any chart or table data is computed), the page otherwise.
\<close>

definition render :: "env \<Rightarrow> string \<Rightarrow> pageState \<Rightarrow> view" where
  "render e now st =
     (if loading st then Spinner
      else case results st of
             None \<Rightarrow> NoAssessmentData
           | Some r \<Rightarrow>
               ResultsPage
                 \<lparr>scoreColor = getScoreColor (overallScore r),
                  scoreShown = overallScore r,
                  assessedOn = now,
                  keyMetrics = take 3 (Object_entries (scores r)),
                  insightsShown = insights r,
                  trendChart = chartSection e (assessmentHistory st),
                  breakdown = tableData (responses st)\<rparr>)"

text \<open>The chart of a view, if it shows one.\<close>

definition chartOf :: "view \<Rightarrow> chartPoint list option" where
  "chartOf v = (case v of ResultsPage p \<Rightarrow> trendChart p | _ \<Rightarrow> None)"


section \<open>Auxiliary notions of the properties\<close>

text \<open>The four colour tiers, lowest first, and the rank of a tier in that order.\<close>

definition colorTiers :: "string list" where
  "colorTiers = [''text-red-500'', ''text-yellow-500'', ''text-blue-500'', ''text-green-500'']"

definition tierRank :: "string \<Rightarrow> nat" where
  "tierRank c =
     (if c = ''text-green-500'' then 3 else if c = ''text-blue-500'' then 2
      else if c = ''text-yellow-500'' then 1 else 0)"


text \<open>The text of the export that follows the date, before trimming.\<close>

definition afterDate :: "env \<Rightarrow> AssessmentResult \<Rightarrow> (string \<times> string) list \<Rightarrow> string" where
  "afterDate e r rs =
     ''\<newline>Overall Score: '' @ Number_toString e (overallScore r) @
     ''/50\<newline>\<newline>Insights:\<newline>'' @ insights r @
     ''\<newline>\<newline>Questions & Answers:\<newline>'' @
     join ''\<newline>'' (map (rowText e) (tableData rs)) @
     ''\<newline>    ''"


text \<open>The exception the \<open>try\<close> block of \<open>fetchAssessmentHistory\<close> raises on a reply, if any.\<close>

definition queryError :: "queryReply \<Rightarrow> string option" where
  "queryError reply =
     (case reply of
        QueryRejected err \<Rightarrow> Some err
      | QueryResolved (Some err) data \<Rightarrow> Some err
      | QueryResolved None data \<Rightarrow> None)"


text \<open>The result payload of a navigation state, if present.\<close>

definition resultsOf :: "'q locationState option \<Rightarrow> AssessmentResult option" where
  "resultsOf location_state = (case location_state of None \<Rightarrow> None | Some p \<Rightarrow> results' p)"


text \<open>The state after the synchronous part of the effect.\<close>

definition ingest :: "'q locationState option \<Rightarrow> pageState \<Rightarrow> pageState" where
  "ingest loc st =
     st\<lparr>results := (case resultsOf loc of None \<Rightarrow> results st | Some d \<Rightarrow> Some d),
        responses := (case loc of None \<Rightarrow> responses st
                      | Some p \<Rightarrow> (case responses' p of None \<Rightarrow> responses st | Some d \<Rightarrow> d)),
        loading := False\<rparr>"


text \<open>A host and a result payload for the concrete runs.\<close>

definition hostSample :: env where
  "hostSample =
     \<lparr>toLocaleDateString = (\<lambda>s. s), numberText = (\<lambda>r. ''''),
      nativeText = (\<lambda>k. ''function '' @ k @ ''() { [native code] }'')\<rparr>"

definition resultsSample :: AssessmentResult where
  "resultsSample =
     \<lparr>overallScore = Finite 42, scores = [(''emotional'', Finite 8), (''sleep'', Finite 9)],
      insights = ''Good balance'', metrics = [], assessmentId = ''a-1''\<rparr>"

definition historySample :: "HistoryRecord list" where
  "historySample =
     [\<lparr>overall_score = Finite 30, created_at = ''2026-02-01T09:00:00Z''\<rparr>,
      \<lparr>overall_score = Finite 20, created_at = ''2026-01-01T09:00:00Z''\<rparr>]"

text \<open>
  The digits of a timestamp read as one integer: on timestamps of one format it orders
  them by time.
\<close>

definition stamp :: "string \<Rightarrow> int" where
  "stamp s = mathInt 10 (filter (isRadixDigit 10) s)"



section \<open>Digits and \<open>parseInt\<close>\<close>

lemma digit_cases: "d < 10 \<Longrightarrow> d \<in> {0, 1, 2, 3, 4, 5, 6, 7, 8, 9::nat}"
  by auto

lemma nth_digits:
  "''0123456789'' ! 0 = CHR ''0''" "''0123456789'' ! 1 = CHR ''1''"
  "''0123456789'' ! 2 = CHR ''2''" "''0123456789'' ! 3 = CHR ''3''"
  "''0123456789'' ! 4 = CHR ''4''" "''0123456789'' ! 5 = CHR ''5''"
  "''0123456789'' ! 6 = CHR ''6''" "''0123456789'' ! 7 = CHR ''7''"
  "''0123456789'' ! 8 = CHR ''8''" "''0123456789'' ! 9 = CHR ''9''"
  by simp_all

lemma digitValue_digit:
  assumes "d < 10"
  shows "digitValue (''0123456789'' ! d) = Some d"
  using digit_cases [OF assms]
  by (elim insertE emptyE) (simp_all only: nth_digits, simp_all add: digitValue_def)

lemma digit_mem: "d < 10 \<Longrightarrow> ''0123456789'' ! d \<in> set ''0123456789''"
  by (rule nth_mem) simp

lemma digit_props:
  assumes "c \<in> set ''0123456789''"
  shows "isRadixDigit 10 c \<and> \<not> isWhiteSpace c \<and> c \<noteq> CHR ''-'' \<and> c \<noteq> CHR ''+'' \<and>
         c \<noteq> CHR ''x'' \<and> c \<noteq> CHR ''X''"
  using assms
  by (simp only: list.set insert_iff empty_iff)
     (elim disjE; simp add: isRadixDigit_def digitValue_def isWhiteSpace_def)

lemma mathInt_snoc:
  "mathInt R (Z @ [c]) =
     (case digitValue c of None \<Rightarrow> mathInt R Z | Some d \<Rightarrow> mathInt R Z * int R + int d)"
  by (simp add: mathInt_def split: option.splits)

lemma show_nat_not_Nil: "show_nat n \<noteq> []"
  by (subst show_nat.simps) simp

lemma show_nat_digits: "set (show_nat n) \<subseteq> set ''0123456789''"
proof (induction n rule: show_nat.induct)
  case (1 n)
  show ?case
  proof (cases "n < 10")
    case True
    have "show_nat n = [''0123456789'' ! n]"
      using True by (subst show_nat.simps) simp
    then show ?thesis
      using digit_mem [OF True] by simp
  next
    case False
    have "show_nat n = show_nat (n div 10) @ [''0123456789'' ! (n mod 10)]"
      using False by (subst show_nat.simps) simp
    moreover have "''0123456789'' ! (n mod 10) \<in> set ''0123456789''"
      by (rule digit_mem) simp
    ultimately show ?thesis
      using "1.IH" [OF False] by simp
  qed
qed

lemma mathInt_show_nat: "mathInt 10 (show_nat n) = int n"
proof (induction n rule: show_nat.induct)
  case (1 n)
  show ?case
  proof (cases "n < 10")
    case True
    have "show_nat n = [''0123456789'' ! n]"
      using True by (subst show_nat.simps) simp
    then show ?thesis
      using digitValue_digit [OF True] by (simp add: mathInt_def)
  next
    case False
    have "mathInt 10 (show_nat n) = mathInt 10 (show_nat (n div 10) @ [''0123456789'' ! (n mod 10)])"
      using False by (subst show_nat.simps) simp
    also have "\<dots> = mathInt 10 (show_nat (n div 10)) * 10 + int (n mod 10)"
      using digitValue_digit [of "n mod 10"] by (simp add: mathInt_snoc)
    also have "\<dots> = int (n div 10) * 10 + int (n mod 10)"
      using "1.IH" [OF False] by simp
    also have "\<dots> = int n"
      by (simp add: zdiv_int zmod_int)
    finally show ?thesis .
  qed
qed

lemma parseInt_digits:
  assumes "S \<noteq> []" and "set S \<subseteq> set ''0123456789''"
  shows "parseInt S = roundToDouble (mathInt 10 S)"
    and "parseInt (CHR ''-'' # S) = roundToDouble (- mathInt 10 S)"
proof -
  have "hd S \<in> set ''0123456789''"
    using assms by (cases S) simp_all
  then have hd: "\<not> isWhiteSpace (hd S)" "hd S \<noteq> CHR ''-''" "hd S \<noteq> CHR ''+''"
    using digit_props [of "hd S"] by simp_all
  have dw: "dropWhile isWhiteSpace S = S"
    using hd(1) assms(1) by (cases S) simp_all
  have nox: "CHR ''x'' \<notin> set S" "CHR ''X'' \<notin> set S"
    using assms(2) by auto
  have nohex: "take 2 S \<noteq> ''0x''" "take 2 S \<noteq> ''0X''"
  proof -
    show "take 2 S \<noteq> ''0x''"
    proof
      assume "take 2 S = ''0x''"
      then have "CHR ''x'' \<in> set (take 2 S)" by simp
      then have "CHR ''x'' \<in> set S" by (rule in_set_takeD)
      then show False using nox(1) by simp
    qed
    show "take 2 S \<noteq> ''0X''"
    proof
      assume "take 2 S = ''0X''"
      then have "CHR ''X'' \<in> set (take 2 S)" by simp
      then have "CHR ''X'' \<in> set S" by (rule in_set_takeD)
      then show False using nox(2) by simp
    qed
  qed
  have "\<And>c. c \<in> set S \<Longrightarrow> isRadixDigit 10 c"
    using assms(2) digit_props by (meson subsetD)
  then have tw: "takeWhile (isRadixDigit 10) S = S"
    by (simp add: takeWhile_eq_all_conv)
  show "parseInt S = roundToDouble (mathInt 10 S)"
    unfolding parseInt_def Let_def dw
    by (simp only: hd nohex tw assms(1) simp_thms if_False if_True mult_1)
  have dw': "dropWhile isWhiteSpace (CHR ''-'' # S) = CHR ''-'' # S"
    by (simp add: isWhiteSpace_def)
  show "parseInt (CHR ''-'' # S) = roundToDouble (- mathInt 10 S)"
    unfolding parseInt_def Let_def dw'
    by (simp only: list.sel list.distinct nohex tw assms(1) simp_thms if_False if_True
          mult_minus1)
qed

lemma roundToDouble_safe: "\<bar>n\<bar> \<le> 2 ^ 53 \<Longrightarrow> roundToDouble n = Finite (of_int n)"
  by (simp add: roundToDouble_def)

lemma parseInt_show_int:
  assumes "\<bar>k\<bar> \<le> 2 ^ 53"
  shows "parseInt (show_int k) = Finite (of_int k)"
proof (cases "k < 0")
  case True
  then show ?thesis
    using parseInt_digits(2) [OF show_nat_not_Nil show_nat_digits, of "nat (- k)"] assms
    by (simp add: show_int_def mathInt_show_nat roundToDouble_safe)
next
  case False
  then show ?thesis
    using parseInt_digits(1) [OF show_nat_not_Nil show_nat_digits, of "nat k"] assms
    by (simp add: show_int_def mathInt_show_nat roundToDouble_safe)
qed


section \<open>The colour of the score\<close>

lemma number_ge_trans: "number_ge b a \<Longrightarrow> number_ge a c \<Longrightarrow> number_ge b c"
  by (cases a; cases b; cases c) auto

lemma getScoreColor_mono:
  "number_ge b a \<Longrightarrow> tierRank (getScoreColor a) \<le> tierRank (getScoreColor b)"
  using number_ge_trans [of b a]
  by (auto simp: getScoreColor_def tierRank_def)

text \<open>
  C1. For every number \<open>s\<close>, \<open>getScoreColor s\<close> is one of the four (distinct) tiers: at
  least 40 gives green, at least 30 and below 40 blue, at least 20 and below 30 yellow,
  below 20 red; and the tier never decreases when the score increases.
\<close>

theorem getScoreColor_tiers:
  "getScoreColor s \<in> set colorTiers \<and> distinct colorTiers \<and>
   (number_ge s (Finite 40) \<longrightarrow> getScoreColor s = ''text-green-500'') \<and>
   (number_ge s (Finite 30) \<and> number_lt s (Finite 40) \<longrightarrow> getScoreColor s = ''text-blue-500'') \<and>
   (number_ge s (Finite 20) \<and> number_lt s (Finite 30) \<longrightarrow> getScoreColor s = ''text-yellow-500'') \<and>
   (number_lt s (Finite 20) \<longrightarrow> getScoreColor s = ''text-red-500'') \<and>
   (number_ge b a \<longrightarrow> tierRank (getScoreColor a) \<le> tierRank (getScoreColor b))"
proof -
  have lt: "\<And>x y. number_lt s (Finite x) \<Longrightarrow> x \<le> y \<Longrightarrow> \<not> number_ge s (Finite y)"
    by (cases s) auto
  have "getScoreColor s \<in> set colorTiers"
    by (simp add: getScoreColor_def colorTiers_def)
  moreover have "distinct colorTiers"
    by (simp add: colorTiers_def)
  moreover have "number_ge s (Finite 40) \<longrightarrow> getScoreColor s = ''text-green-500''"
    by (simp add: getScoreColor_def)
  moreover have "number_ge s (Finite 30) \<and> number_lt s (Finite 40) \<longrightarrow> getScoreColor s = ''text-blue-500''"
    using lt [of 40 40] by (auto simp: getScoreColor_def)
  moreover have "number_ge s (Finite 20) \<and> number_lt s (Finite 30) \<longrightarrow> getScoreColor s = ''text-yellow-500''"
    using lt [of 30 30] lt [of 30 40] by (auto simp: getScoreColor_def)
  moreover have "number_lt s (Finite 20) \<longrightarrow> getScoreColor s = ''text-red-500''"
    using lt [of 20 20] lt [of 20 30] lt [of 20 40] by (auto simp: getScoreColor_def)
  moreover have "number_ge b a \<longrightarrow> tierRank (getScoreColor a) \<le> tierRank (getScoreColor b)"
    using getScoreColor_mono by blast
  ultimately show ?thesis by blast
qed

theorem getScoreColor_tiers_witness:
  "number_ge (Finite 35) (Finite 30) \<and> number_lt (Finite 35) (Finite 40) \<and>
   getScoreColor (Finite 35) = ''text-blue-500'' \<and>
   number_ge (Finite 45) (Finite 40) \<and> getScoreColor (Finite 45) = ''text-green-500'' \<and>
   number_ge (Finite 45) (Finite 35) \<and>
   tierRank (getScoreColor (Finite 35)) \<le> tierRank (getScoreColor (Finite 45))"
  using getScoreColor_tiers [of "Finite 35" "Finite 45" "Finite 35"]
        getScoreColor_tiers [of "Finite 45" "Finite 45" "Finite 35"]
  by (simp add: tierRank_def)


section \<open>The exported text\<close>

lemma trimEnd_append:
  assumes "c \<in> set ys" and "\<not> isWhiteSpace c"
  shows "trimEnd (xs @ ys) = xs @ trimEnd ys"
proof -
  have "c \<in> set (rev ys)"
    using assms(1) by simp
  then have "dropWhile isWhiteSpace (rev ys @ rev xs) = dropWhile isWhiteSpace (rev ys) @ rev xs"
    using assms(2) by (rule dropWhile_append1)
  then show ?thesis
    by (simp add: trimEnd_def)
qed

lemma content_split:
  "content e now r rs =
     ''Assessment Results\<newline>Date: '' @ now @ trimEnd (afterDate e r rs)"
proof -
  have O: "CHR ''O'' \<in> set (afterDate e r rs)"
    by (simp add: afterDate_def)
  have nw: "\<not> isWhiteSpace (CHR ''O'')"
    by (simp add: isWhiteSpace_def)
  have "content e now r rs =
          trim (''\<newline>Assessment Results\<newline>Date: '' @ now @ afterDate e r rs)"
    by (simp add: content_def afterDate_def)
  also have "\<dots> = trimEnd ((''Assessment Results\<newline>Date: '' @ now) @ afterDate e r rs)"
    by (simp add: trim_def trimStart_def isWhiteSpace_def)
  also have "\<dots> = (''Assessment Results\<newline>Date: '' @ now) @ trimEnd (afterDate e r rs)"
    using O nw by (rule trimEnd_append)
  finally show ?thesis by simp
qed

text \<open>
  C2, as the code has it. The exported text is a function of the results, the responses
  and the text of the local date and time read at the click: two invocations with the
  same results and responses give \<open>Assessment Results\<close>, the line \<open>Date:\<close> with the time
  of each, and the same remainder; the two texts are identical exactly when the two
  times read the same.
\<close>

theorem content_two_runs:
  "(\<exists>rest. content e now1 r rs = ''Assessment Results\<newline>Date: '' @ now1 @ rest \<and>
           content e now2 r rs = ''Assessment Results\<newline>Date: '' @ now2 @ rest) \<and>
   (content e now1 r rs = content e now2 r rs) = (now1 = now2)"
  by (simp add: content_split)

theorem content_two_runs_witness:
  "(\<exists>rest.
      content hostSample ''1/1/2026, 10:00:00 AM'' resultsSample [(''1'', ''4'')] =
        ''Assessment Results\<newline>Date: '' @ ''1/1/2026, 10:00:00 AM'' @ rest \<and>
      content hostSample ''1/1/2026, 10:00:01 AM'' resultsSample [(''1'', ''4'')] =
        ''Assessment Results\<newline>Date: '' @ ''1/1/2026, 10:00:01 AM'' @ rest) \<and>
   (content hostSample ''1/1/2026, 10:00:00 AM'' resultsSample [(''1'', ''4'')] =
    content hostSample ''1/1/2026, 10:00:01 AM'' resultsSample [(''1'', ''4'')]) =
   (''1/1/2026, 10:00:00 AM'' = ''1/1/2026, 10:00:01 AM'')"
  by (rule content_two_runs)

text \<open>
  The text is not a function of the results and the responses alone: one second later,
  the same results and responses export a different text.
\<close>

theorem content_depends_on_clock:
  "content hostSample ''1/1/2026, 10:00:00 AM'' resultsSample [(''1'', ''4''), (''2'', ''5'')] \<noteq>
   content hostSample ''1/1/2026, 10:00:01 AM'' resultsSample [(''1'', ''4''), (''2'', ''5'')]"
  by (simp add: content_split)



lemma parseInt_1_5:
  "parseInt ''1'' = Finite 1" "parseInt ''2'' = Finite 2" "parseInt ''3'' = Finite 3"
  "parseInt ''4'' = Finite 4" "parseInt ''5'' = Finite 5"
  by (simp_all add: parseInt_def isWhiteSpace_def isRadixDigit_def digitValue_def mathInt_def
        roundToDouble_def)









section \<open>Mounting the page\<close>

lemma fetchAssessmentHistory_eq:
  "fetchAssessmentHistory uid reply (st, trace) =
     (case reply of QueryResolved None (Some d) \<Rightarrow> st\<lparr>assessmentHistory := d\<rparr> | _ \<Rightarrow> st,
      trace @ QueryAssessments uid #
        (case queryError reply of None \<Rightarrow> [] | Some err \<Rightarrow> [ConsoleError err]))"
  by (simp add: fetchAssessmentHistory_def queryError_def Let_def
        split: queryReply.splits option.splits)


lemma useEffect_eq:
  "useEffect loc session reply (st, trace) = checkAuth session reply (ingest loc st, trace @ [GetSession])"
  by (simp add: useEffect_def ingest_def resultsOf_def Let_def split: option.splits)

lemma checkAuth_eq:
  "checkAuth session reply (st, trace) =
     (case session of
        SessionRejected err \<Rightarrow> (st, trace @ [UnhandledRejection err])
      | SessionResolved None \<Rightarrow> (st, trace @ [Navigate ''/auth''])
      | SessionResolved (Some uid) \<Rightarrow>
          fetchAssessmentHistory uid reply (st\<lparr>userId := Some uid\<rparr>, trace))"
  by (simp add: checkAuth_def)

lemma fetchAssessmentHistory_keeps:
  "results (fst (fetchAssessmentHistory uid reply (st, trace))) = results st \<and>
   responses (fst (fetchAssessmentHistory uid reply (st, trace))) = responses st \<and>
   loading (fst (fetchAssessmentHistory uid reply (st, trace))) = loading st"
  by (simp add: fetchAssessmentHistory_eq split: queryReply.splits option.splits)

lemma checkAuth_keeps:
  "results (fst (checkAuth session reply (st, trace))) = results st \<and>
   responses (fst (checkAuth session reply (st, trace))) = responses st \<and>
   loading (fst (checkAuth session reply (st, trace))) = loading st"
proof (cases session)
  case (SessionRejected err)
  then show ?thesis by (simp add: checkAuth_eq)
next
  case (SessionResolved s)
  then show ?thesis
    by (cases s) (simp_all add: checkAuth_eq fetchAssessmentHistory_keeps)
qed

lemma mount_eq:
  "mount loc session reply = checkAuth session reply (ingest loc initialState, [GetSession])"
  by (simp add: mount_def useEffect_eq)

lemma mount_state:
  "results (fst (mount loc session reply)) = resultsOf loc \<and>
   loading (fst (mount loc session reply)) = False \<and>
   responses (fst (mount loc session reply)) =
     (case loc of None \<Rightarrow> [] | Some p \<Rightarrow> (case responses' p of None \<Rightarrow> [] | Some d \<Rightarrow> d))"
  by (simp add: mount_eq checkAuth_keeps) (simp add: ingest_def initialState_def split: option.splits)

lemma mount_history:
  "assessmentHistory (fst (mount loc (SessionResolved (Some uid)) reply)) =
     (case reply of QueryResolved None (Some d) \<Rightarrow> d | _ \<Rightarrow> [])"
  by (simp add: mount_eq checkAuth_eq fetchAssessmentHistory_eq ingest_def initialState_def
        split: queryReply.splits option.splits)

lemma mount_trace:
  "snd (mount loc session reply) =
     GetSession #
     (case session of
        SessionRejected err \<Rightarrow> [UnhandledRejection err]
      | SessionResolved None \<Rightarrow> [Navigate ''/auth'']
      | SessionResolved (Some uid) \<Rightarrow>
          QueryAssessments uid #
          (case queryError reply of None \<Rightarrow> [] | Some err \<Rightarrow> [ConsoleError err]))"
proof (cases session)
  case (SessionRejected err)
  then show ?thesis by (simp add: mount_eq checkAuth_eq)
next
  case (SessionResolved s)
  then show ?thesis
    by (cases s) (simp_all add: mount_eq checkAuth_eq fetchAssessmentHistory_eq)
qed

lemma render_mount:
  "render e now (fst (mount loc session reply)) =
     (case resultsOf loc of
        None \<Rightarrow> NoAssessmentData
      | Some r \<Rightarrow>
          ResultsPage
            \<lparr>scoreColor = getScoreColor (overallScore r),
             scoreShown = overallScore r,
             assessedOn = now,
             keyMetrics = take 3 (Object_entries (scores r)),
             insightsShown = insights r,
             trendChart = chartSection e (assessmentHistory (fst (mount loc session reply))),
             breakdown = tableData (responses (fst (mount loc session reply)))\<rparr>)"
  using mount_state [of loc session reply]
  by (simp add: render_def split: option.splits)

lemma useEffect_state:
  "results (fst (useEffect loc session reply r)) =
     (case resultsOf loc of None \<Rightarrow> results (fst r) | Some d \<Rightarrow> Some d) \<and>
   loading (fst (useEffect loc session reply r)) = False"
  by (cases r) (simp add: useEffect_eq checkAuth_keeps ingest_def split: option.splits)

lemma useEffect_trace:
  "snd (useEffect loc session reply (st, trace)) =
     trace @ GetSession #
     (case session of
        SessionRejected err \<Rightarrow> [UnhandledRejection err]
      | SessionResolved None \<Rightarrow> [Navigate ''/auth'']
      | SessionResolved (Some uid) \<Rightarrow>
          QueryAssessments uid #
          (case queryError reply of None \<Rightarrow> [] | Some err \<Rightarrow> [ConsoleError err]))"
proof (cases session)
  case (SessionRejected err)
  then show ?thesis by (simp add: useEffect_eq checkAuth_eq)
next
  case (SessionResolved s)
  then show ?thesis
    by (cases s) (simp_all add: useEffect_eq checkAuth_eq fetchAssessmentHistory_eq)
qed

text \<open>
  C3, as the code has it. If the navigation state holds no result payload and the
  component holds no results of an earlier navigation, as when it is mounted, the page
  renders the placeholder, whatever the session lookup and the store answer (no chart
  data and no table row is computed for it). Every run of the effect, with or without a
  result payload, issues the session lookup and then the history query exactly when the
  lookup returns a session.
\<close>

theorem no_results_placeholder:
  "(resultsOf loc = None \<and> results st = None \<longrightarrow>
      render e now (fst (useEffect loc session reply (st, trace))) = NoAssessmentData) \<and>
   (resultsOf loc = None \<longrightarrow>
      render e now (fst (mount loc session reply)) = NoAssessmentData) \<and>
   snd (useEffect loc session reply (st, trace)) =
     trace @ GetSession #
     (case session of
        SessionRejected err \<Rightarrow> [UnhandledRejection err]
      | SessionResolved None \<Rightarrow> [Navigate ''/auth'']
      | SessionResolved (Some u) \<Rightarrow>
          QueryAssessments u #
          (case queryError reply of None \<Rightarrow> [] | Some err \<Rightarrow> [ConsoleError err])) \<and>
   (QueryAssessments uid \<in> set (snd (mount loc session reply))) =
     (session = SessionResolved (Some uid))"
proof -
  have "resultsOf loc = None \<and> results st = None \<longrightarrow>
      render e now (fst (useEffect loc session reply (st, trace))) = NoAssessmentData"
    using useEffect_state [of loc session reply "(st, trace)"]
    by (simp add: render_def)
  moreover have "resultsOf loc = None \<longrightarrow>
      render e now (fst (mount loc session reply)) = NoAssessmentData"
    by (simp add: render_mount)
  moreover have "(QueryAssessments uid \<in> set (snd (mount loc session reply))) =
     (session = SessionResolved (Some uid))"
    by (auto simp: mount_trace split: sessionReply.splits option.splits)
  ultimately show ?thesis
    using useEffect_trace [of loc session reply st trace] by simp
qed

theorem no_results_placeholder_witness:
  "resultsOf (Some \<lparr>results' = None, responses' = Some [(''1'', ''4'')],
                    selectedQuestions = None :: unit option\<rparr>) = None \<and>
   results initialState = None \<and>
   render hostSample ''1/1/2026, 10:00:00 AM''
     (fst (useEffect (Some \<lparr>results' = None, responses' = Some [(''1'', ''4'')],
                              selectedQuestions = None :: unit option\<rparr>)
            (SessionResolved None) (QueryResolved None None) (initialState, []))) =
     NoAssessmentData \<and>
   render hostSample ''1/1/2026, 10:00:00 AM''
     (fst (mount (Some \<lparr>results' = None, responses' = Some [(''1'', ''4'')],
                          selectedQuestions = None :: unit option\<rparr>)
            (SessionResolved None) (QueryResolved None None))) =
     NoAssessmentData \<and>
   snd (useEffect (Some \<lparr>results' = None, responses' = Some [(''1'', ''4'')],
                           selectedQuestions = None :: unit option\<rparr>)
          (SessionResolved None) (QueryResolved None None) (initialState, [])) =
     [GetSession, Navigate ''/auth''] \<and>
   QueryAssessments ''user-1'' \<notin>
     set (snd (mount (Some \<lparr>results' = None, responses' = Some [(''1'', ''4'')],
                              selectedQuestions = None :: unit option\<rparr>)
                 (SessionResolved None) (QueryResolved None None)))"
proof -
  let ?loc = "Some \<lparr>results' = None, responses' = Some [(''1'', ''4'')],
                     selectedQuestions = None :: unit option\<rparr>"
  note inst = no_results_placeholder [of ?loc initialState hostSample
      "''1/1/2026, 10:00:00 AM''" "SessionResolved None" "QueryResolved None None" "[]"
      "''user-1''"]
  have absent: "resultsOf ?loc = None"
    by (simp add: resultsOf_def)
  have fresh: "results initialState = None"
    by (simp add: initialState_def)
  from inst absent fresh show ?thesis
    by simp
qed

text \<open>
  With a session and no result payload the page shows the placeholder and the history
  query has been issued all the same. And when the effect runs again on a location
  without a result payload, the results of the earlier navigation stay in the state and
  the page shows them, not the placeholder.
\<close>

theorem no_results_fetches_and_keeps_results:
  "resultsOf (Some \<lparr>results' = None, responses' = None, selectedQuestions = None :: unit option\<rparr>) =
     None \<and>
   render hostSample ''1/1/2026, 10:00:00 AM''
     (fst (mount (Some \<lparr>results' = None, responses' = None, selectedQuestions = None :: unit option\<rparr>)
            (SessionResolved (Some ''user-1'')) (QueryResolved None (Some [])))) =
     NoAssessmentData \<and>
   snd (mount (Some \<lparr>results' = None, responses' = None, selectedQuestions = None :: unit option\<rparr>)
          (SessionResolved (Some ''user-1'')) (QueryResolved None (Some []))) =
     [GetSession, QueryAssessments ''user-1''] \<and>
   render hostSample ''1/1/2026, 10:00:00 AM''
     (fst (useEffect
            (Some \<lparr>results' = None, responses' = None, selectedQuestions = None :: unit option\<rparr>)
            (SessionResolved (Some ''user-1'')) (QueryResolved None (Some []))
            (mount (Some \<lparr>results' = Some resultsSample, responses' = None,
                           selectedQuestions = None :: unit option\<rparr>)
               (SessionResolved (Some ''user-1'')) (QueryResolved None (Some []))))) \<noteq>
     NoAssessmentData"
proof -
  let ?none = "Some \<lparr>results' = None, responses' = None, selectedQuestions = None :: unit option\<rparr>"
  let ?some = "Some \<lparr>results' = Some resultsSample, responses' = None,
                      selectedQuestions = None :: unit option\<rparr>"
  let ?s = "SessionResolved (Some ''user-1'')"
  let ?q = "QueryResolved None (Some [])"
  have "results (fst (useEffect ?none ?s ?q (mount ?some ?s ?q))) = Some resultsSample"
    using useEffect_state [of ?none ?s ?q "mount ?some ?s ?q"] mount_state [of ?some ?s ?q]
    by (simp add: resultsOf_def)
  moreover have "loading (fst (useEffect ?none ?s ?q (mount ?some ?s ?q))) = False"
    using useEffect_state [of ?none ?s ?q "mount ?some ?s ?q"] by simp
  ultimately have "render hostSample ''1/1/2026, 10:00:00 AM''
      (fst (useEffect ?none ?s ?q (mount ?some ?s ?q))) \<noteq> NoAssessmentData"
    by (simp add: render_def)
  then show ?thesis
    by (simp add: render_mount mount_trace resultsOf_def queryError_def)
qed


section \<open>The trend chart\<close>

lemma length_chartData: "length (chartData e h) = length h"
  by (simp add: chartData_def)

lemma nth_chartData:
  "i < length h \<Longrightarrow>
     chartData e h ! i =
       \<lparr>name = ''Assessment '' @ show_nat (i + 1), score' = overall_score (rev h ! i),
        date = toLocaleDateString e (created_at (rev h ! i))\<rparr>"
  by (simp add: chartData_def nth_enumerate_eq)

text \<open>
  C4. A history of length 0 or 1 gives no chart section. A history of length \<open>n\<close>, at
  least 2, gives a chart of exactly \<open>n\<close> points; point \<open>i\<close> (counted from 1) is labelled
  \<open>Assessment i\<close> and carries the overall score and the date of the \<open>i\<close>-th record of the
  reversed history, which is oldest first when the store returned the history newest
  first. The page mounted with a result payload and that history shows this chart section.
\<close>

theorem trend_chart:
  "(length h \<le> 1 \<longrightarrow> chartSection e h = None) \<and>
   (2 \<le> length h \<longrightarrow>
      (\<exists>points. chartSection e h = Some points \<and> length points = length h \<and>
         (\<forall>i<length h.
            points ! i =
              \<lparr>name = ''Assessment '' @ show_nat (i + 1), score' = overall_score (rev h ! i),
               date = toLocaleDateString e (created_at (rev h ! i))\<rparr>))) \<and>
   (sorted_wrt (\<lambda>a b. t (created_at b) \<le> t (created_at a)) h \<longrightarrow>
      sorted_wrt (\<lambda>a b. t (created_at a) \<le> t (created_at b)) (rev h)) \<and>
   (resultsOf loc = Some r \<longrightarrow>
      chartOf (render e now
        (fst (mount loc (SessionResolved (Some uid)) (QueryResolved None (Some h))))) =
      chartSection e h)"
proof -
  have "length h \<le> 1 \<longrightarrow> chartSection e h = None"
    by (simp add: chartSection_def length_chartData)
  moreover have "2 \<le> length h \<longrightarrow>
      (\<exists>points. chartSection e h = Some points \<and> length points = length h \<and>
         (\<forall>i<length h.
            points ! i =
              \<lparr>name = ''Assessment '' @ show_nat (i + 1), score' = overall_score (rev h ! i),
               date = toLocaleDateString e (created_at (rev h ! i))\<rparr>))"
    by (simp add: chartSection_def length_chartData nth_chartData)
  moreover have "sorted_wrt (\<lambda>a b. t (created_at b) \<le> t (created_at a)) h \<longrightarrow>
      sorted_wrt (\<lambda>a b. t (created_at a) \<le> t (created_at b)) (rev h)"
    by (simp add: sorted_wrt_rev)
  moreover have "resultsOf loc = Some r \<longrightarrow>
      chartOf (render e now
        (fst (mount loc (SessionResolved (Some uid)) (QueryResolved None (Some h))))) =
      chartSection e h"
    by (simp add: render_mount chartOf_def mount_history)
  ultimately show ?thesis by blast
qed

lemma stamp_samples:
  "stamp ''2026-02-01T09:00:00Z'' = 20260201090000"
  "stamp ''2026-01-01T09:00:00Z'' = 20260101090000"
  by (simp_all add: stamp_def isRadixDigit_def digitValue_def mathInt_def)

lemma show_nat_1_2: "show_nat (0 + 1) = ''1''" "show_nat (1 + 1) = ''2''"
  by (simp_all add: show_nat.simps)

theorem trend_chart_witness:
  "length [hd historySample] \<le> 1 \<and> chartSection hostSample [hd historySample] = None \<and>
   2 \<le> length historySample \<and>
   (\<exists>points. chartSection hostSample historySample = Some points \<and> length points = 2 \<and>
      points ! 0 =
        \<lparr>name = ''Assessment 1'', score' = Finite 20, date = ''2026-01-01T09:00:00Z''\<rparr> \<and>
      points ! 1 =
        \<lparr>name = ''Assessment 2'', score' = Finite 30, date = ''2026-02-01T09:00:00Z''\<rparr>) \<and>
   sorted_wrt (\<lambda>a b. stamp (created_at b) \<le> stamp (created_at a)) historySample \<and>
   sorted_wrt (\<lambda>a b. stamp (created_at a) \<le> stamp (created_at b)) (rev historySample) \<and>
   resultsOf (Some \<lparr>results' = Some resultsSample, responses' = None,
                     selectedQuestions = None :: unit option\<rparr>) = Some resultsSample \<and>
   chartOf (render hostSample ''1/1/2026, 10:00:00 AM''
     (fst (mount (Some \<lparr>results' = Some resultsSample, responses' = None,
                          selectedQuestions = None :: unit option\<rparr>)
            (SessionResolved (Some ''user-1'')) (QueryResolved None (Some historySample))))) =
     chartSection hostSample historySample"
proof -
  let ?loc = "Some \<lparr>results' = Some resultsSample, responses' = None,
                     selectedQuestions = None :: unit option\<rparr>"
  note one = trend_chart [of "[hd historySample]" hostSample stamp ?loc resultsSample
      "''1/1/2026, 10:00:00 AM''" "''user-1''"]
  note two = trend_chart [of historySample hostSample stamp ?loc resultsSample
      "''1/1/2026, 10:00:00 AM''" "''user-1''"]
  have len1: "length [hd historySample] \<le> 1"
    by simp
  have len2: "2 \<le> length historySample" and len2': "length historySample = 2"
    by (simp_all add: historySample_def)
  have srt: "sorted_wrt (\<lambda>a b. stamp (created_at b) \<le> stamp (created_at a)) historySample"
    by (simp add: historySample_def stamp_samples)
  have res: "resultsOf ?loc = Some resultsSample"
    by (simp add: resultsOf_def)
  from one len1 have none: "chartSection hostSample [hd historySample] = None"
    by blast
  from two len2 obtain points where points: "chartSection hostSample historySample = Some points"
    "length points = length historySample"
    "\<forall>i<length historySample. points ! i =
        \<lparr>name = ''Assessment '' @ show_nat (i + 1),
         score' = overall_score (rev historySample ! i),
         date = toLocaleDateString hostSample (created_at (rev historySample ! i))\<rparr>"
    by blast
  have p0: "points ! 0 =
        \<lparr>name = ''Assessment 1'', score' = Finite 20, date = ''2026-01-01T09:00:00Z''\<rparr>"
    using points(3) [rule_format, of 0] len2'
    by (simp only: show_nat_1_2) (simp add: historySample_def hostSample_def)
  have p1: "points ! 1 =
        \<lparr>name = ''Assessment 2'', score' = Finite 30, date = ''2026-02-01T09:00:00Z''\<rparr>"
    using points(3) [rule_format, of 1] len2'
    by (simp only: show_nat_1_2) (simp add: historySample_def hostSample_def)
  from two srt have srt': "sorted_wrt (\<lambda>a b. stamp (created_at a) \<le> stamp (created_at b)) (rev historySample)"
    by blast
  from two res have page: "chartOf (render hostSample ''1/1/2026, 10:00:00 AM''
     (fst (mount ?loc (SessionResolved (Some ''user-1'')) (QueryResolved None (Some historySample))))) =
     chartSection hostSample historySample"
    by blast
  from points(1,2) len2' p0 p1 have ex: "\<exists>points. chartSection hostSample historySample = Some points \<and>
      length points = 2 \<and>
      points ! 0 =
        \<lparr>name = ''Assessment 1'', score' = Finite 20, date = ''2026-01-01T09:00:00Z''\<rparr> \<and>
      points ! 1 =
        \<lparr>name = ''Assessment 2'', score' = Finite 30, date = ''2026-02-01T09:00:00Z''\<rparr>"
    by simp
  from len1 none len2 ex srt srt' res page show ?thesis
    by blast
qed


section \<open>Errors of the history retrieval\<close>

text \<open>
  C5. Whatever error the retrieval raises (the query rejects, or its reply carries an
  error), it is caught and logged and the state is left as it was; after mounting, the
  history is empty, the trace holds one query and the logged error and nothing more (no
  retry), and the page renders as usual, without the chart section.
\<close>

theorem history_error_swallowed:
  "queryError reply = Some err \<Longrightarrow>
     fetchAssessmentHistory uid reply (st, trace) =
       (st, trace @ [QueryAssessments uid, ConsoleError err]) \<and>
     assessmentHistory (fst (mount loc (SessionResolved (Some uid)) reply)) = [] \<and>
     snd (mount loc (SessionResolved (Some uid)) reply) =
       [GetSession, QueryAssessments uid, ConsoleError err] \<and>
     chartOf (render e now (fst (mount loc (SessionResolved (Some uid)) reply))) = None \<and>
     render e now (fst (mount loc (SessionResolved (Some uid)) reply)) =
       (case resultsOf loc of
          None \<Rightarrow> NoAssessmentData
        | Some r \<Rightarrow>
            ResultsPage
              \<lparr>scoreColor = getScoreColor (overallScore r), scoreShown = overallScore r,
               assessedOn = now, keyMetrics = take 3 (Object_entries (scores r)),
               insightsShown = insights r, trendChart = None,
               breakdown =
                 tableData (responses (fst (mount loc (SessionResolved (Some uid)) reply)))\<rparr>)"
proof -
  assume err: "queryError reply = Some err"
  have keep: "(case reply of QueryResolved None (Some d) \<Rightarrow> st'\<lparr>assessmentHistory := d\<rparr> | _ \<Rightarrow> st') = st'"
    for st' :: pageState
    using err by (simp add: queryError_def split: queryReply.splits option.splits)
  have hist: "assessmentHistory (fst (mount loc (SessionResolved (Some uid)) reply)) = []"
    using err by (simp add: mount_history queryError_def split: queryReply.splits option.splits)
  have "fetchAssessmentHistory uid reply (st, trace) =
       (st, trace @ [QueryAssessments uid, ConsoleError err])"
    using err keep by (simp add: fetchAssessmentHistory_eq)
  moreover have "snd (mount loc (SessionResolved (Some uid)) reply) =
       [GetSession, QueryAssessments uid, ConsoleError err]"
    using err by (simp add: mount_trace)
  moreover have "chartSection e [] = None"
    by (simp add: chartSection_def chartData_def)
  ultimately show ?thesis
    using hist by (simp add: render_mount chartOf_def split: option.splits)
qed

theorem history_error_swallowed_witness:
  "queryError (QueryRejected ''network'') = Some ''network'' \<and>
   assessmentHistory (fst (mount (Some \<lparr>results' = Some resultsSample, responses' = None,
       selectedQuestions = None :: unit option\<rparr>) (SessionResolved (Some ''user-1''))
       (QueryRejected ''network''))) = [] \<and>
   snd (mount (Some \<lparr>results' = Some resultsSample, responses' = None,
       selectedQuestions = None :: unit option\<rparr>) (SessionResolved (Some ''user-1''))
       (QueryRejected ''network'')) =
     [GetSession, QueryAssessments ''user-1'', ConsoleError ''network''] \<and>
   queryError (QueryResolved (Some ''denied'') None) = Some ''denied'' \<and>
   snd (mount (None :: unit locationState option) (SessionResolved (Some ''user-1''))
       (QueryResolved (Some ''denied'') None)) =
     [GetSession, QueryAssessments ''user-1'', ConsoleError ''denied'']"
  using history_error_swallowed [of "QueryRejected ''network''" "''network''" "''user-1''"
          initialState "[]"
          "Some \<lparr>results' = Some resultsSample, responses' = None,
                  selectedQuestions = None :: unit option\<rparr>" hostSample "''now''"]
        history_error_swallowed [of "QueryResolved (Some ''denied'') None" "''denied''" "''user-1''"
          initialState "[]" "None :: unit locationState option" hostSample "''now''"]
  by (simp add: queryError_def)


section \<open>The selected questions\<close>

text \<open>
  C9. Two navigation payloads that differ only in \<open>selectedQuestions\<close> give the same
  state and the same trace, hence the same rendered page; the responses behind the table
  are those of the payload, neither filtered nor reordered by \<open>selectedQuestions\<close>.
\<close>

theorem selectedQuestions_ignored:
  "mount (Some \<lparr>results' = r, responses' = rs, selectedQuestions = sq1\<rparr>) session reply =
   mount (Some \<lparr>results' = r, responses' = rs, selectedQuestions = sq2\<rparr>) session reply \<and>
   render e now
     (fst (mount (Some \<lparr>results' = r, responses' = rs, selectedQuestions = sq1\<rparr>) session reply)) =
   render e now
     (fst (mount (Some \<lparr>results' = r, responses' = rs, selectedQuestions = sq2\<rparr>) session reply)) \<and>
   responses
     (fst (mount (Some \<lparr>results' = r, responses' = rs, selectedQuestions = sq1\<rparr>) session reply)) =
     (case rs of None \<Rightarrow> [] | Some d \<Rightarrow> d)"
proof -
  have "mount (Some \<lparr>results' = r, responses' = rs, selectedQuestions = sq1\<rparr>) session reply =
        mount (Some \<lparr>results' = r, responses' = rs, selectedQuestions = sq2\<rparr>) session reply"
    by (simp add: mount_eq ingest_def resultsOf_def)
  then show ?thesis
    by (simp add: mount_state)
qed

theorem selectedQuestions_ignored_witness:
  "render hostSample ''now''
     (fst (mount (Some \<lparr>results' = Some resultsSample, responses' = Some [(''2'', ''5''), (''1'', ''4'')],
                          selectedQuestions = Some [2 :: nat, 1]\<rparr>)
            (SessionResolved (Some ''user-1'')) (QueryResolved None (Some historySample)))) =
   render hostSample ''now''
     (fst (mount (Some \<lparr>results' = Some resultsSample, responses' = Some [(''2'', ''5''), (''1'', ''4'')],
                          selectedQuestions = None :: unit option\<rparr>)
            (SessionResolved (Some ''user-1'')) (QueryResolved None (Some historySample))))"
  using selectedQuestions_ignored [of "Some resultsSample" "Some [(''2'', ''5''), (''1'', ''4'')]"
          "Some [2 :: nat, 1]" "SessionResolved (Some ''user-1'')"
          "QueryResolved None (Some historySample)" "None :: unit option" hostSample "''now''"]
  by simp


section \<open>The rows of the table\<close>

lemma set_Object_entries: "set (Object_entries obj) = set obj"
  by (auto simp: Object_entries_def)

lemma length_Object_entries: "length (Object_entries obj) = length obj"
  by (simp add: Object_entries_def sum_length_filter_compl)

lemma strict_eq_NaN: "\<not> strict_eq a NaN"
  by (cases a) simp_all

lemma toRow_unknown:
  assumes "\<forall>q\<in>set questionBank. \<not> strict_eq (id' q) (parseInt key)"
  shows "question (toRow (key, a)) = ''Unknown question'' \<and> category (toRow (key, a)) = ''Unknown''"
proof -
  have "find (\<lambda>q. strict_eq (id' q) (parseInt key)) questionBank = None"
    using assms by (simp add: find_None_iff)
  then show ?thesis
    by (simp add: toRow_def)
qed

lemma bank_ids:
  "(\<exists>q\<in>set questionBank. strict_eq (id' q) (Finite (of_int k))) = (1 \<le> k \<and> k \<le> 10)"
proof -
  have "(\<exists>q\<in>set questionBank. strict_eq (id' q) (Finite (of_int k))) =
        (k \<in> {1, 2, 3, 4, 5, 6, 7, 8, 9, 10})"
    by (simp add: questionBank_def eq_commute [of _ "real_of_int k"])
  also have "\<dots> = (1 \<le> k \<and> k \<le> 10)"
    by auto arith
  finally show ?thesis .
qed

lemma unknown_for_integer_keys:
  assumes "\<bar>k\<bar> \<le> 2 ^ 53" and "k < 1 \<or> 10 < k"
  shows "question (toRow (show_int k, a)) = ''Unknown question'' \<and>
         category (toRow (show_int k, a)) = ''Unknown''"
proof -
  have "\<forall>q\<in>set questionBank. \<not> strict_eq (id' q) (parseInt (show_int k))"
    using bank_ids [of k] assms by (auto simp: parseInt_show_int)
  then show ?thesis
    by (rule toRow_unknown)
qed

lemma rows_of_entries:
  "(key, a) \<in> set rs \<Longrightarrow> toRow (key, a) \<in> set (tableData rs)"
  "length (tableData rs) = length rs"
  by (simp_all add: tableData_def set_Object_entries length_Object_entries)

lemma parseInt_samples:
  "parseInt ''11'' = Finite 11" "parseInt ''abc'' = NaN" "parseInt ''N/A'' = NaN"
  "parseInt [] = NaN" "parseInt ''1.5'' = Finite 1" "parseInt ''1e+21'' = Finite 1"
  "parseInt ''constructor'' = NaN" "parseInt ''__proto__'' = NaN"
  by (simp_all add: parseInt_def isWhiteSpace_def isRadixDigit_def digitValue_def mathInt_def
        roundToDouble_def)

text \<open>
  C7. The row of an entry is looked up under \<open>parseInt\<close> of its key. When that number
  is the id of no question the row is \<open>Unknown question\<close> and \<open>Unknown\<close>
  (\<open>toRow_unknown\<close>), as for every safe integer outside 1 to 10
  (\<open>unknown_for_integer_keys\<close>), and every entry has its row (\<open>rows_of_entries\<close>). But
  \<open>parseInt\<close> stops at the first character that is no digit: the keys of the numbers 1.5
  and \<open>10 ^ 21\<close>, ids of no question of the bank, are read as 1 and the row shows
  question 1.
\<close>

theorem lenient_key_shows_question:
  "find (\<lambda>q. id' q = Finite 1.5) questionBank = None \<and>
   find (\<lambda>q. id' q = Finite (10 ^ 21)) questionBank = None \<and>
   questionId (toRow (''1.5'', ''3'')) = Finite 1 \<and>
   question (toRow (''1.5'', ''3'')) = ''How would you rate your overall mood today?'' \<and>
   category (toRow (''1.5'', ''3'')) = ''emotional'' \<and>
   questionId (toRow (''1e+21'', ''3'')) = Finite 1 \<and>
   question (toRow (''1e+21'', ''3'')) = ''How would you rate your overall mood today?'' \<and>
   category (toRow (''1e+21'', ''3'')) = ''emotional''"
  by (simp add: toRow_def parseInt_samples questionBank_def)

lemma isRadixDigit_10_digit: "isRadixDigit 10 c \<Longrightarrow> c \<in> set ''0123456789''"
  by (simp add: isRadixDigit_def digitValue_def split: if_splits)

lemma parseInt_no_digit:
  assumes "set a \<inter> set ''0123456789'' = {}"
  shows "parseInt a = NaN"
proof -
  define S0 where "S0 = dropWhile isWhiteSpace a"
  define S1 where "S1 = (if S0 \<noteq> [] \<and> (hd S0 = CHR ''+'' \<or> hd S0 = CHR ''-'') then tl S0 else S0)"
  have "set S0 \<subseteq> set a"
    unfolding S0_def by (meson set_dropWhileD subsetI)
  moreover have "set S1 \<subseteq> set S0"
    unfolding S1_def by (cases S0) auto
  ultimately have sub: "set S1 \<subseteq> set a"
    by blast
  have no0: "CHR ''0'' \<notin> set S1"
    using sub assms by auto
  have nohex: "take 2 S1 \<noteq> ''0x''" "take 2 S1 \<noteq> ''0X''"
  proof -
    show "take 2 S1 \<noteq> ''0x''"
    proof
      assume "take 2 S1 = ''0x''"
      then have "CHR ''0'' \<in> set (take 2 S1)" by simp
      then have "CHR ''0'' \<in> set S1" by (rule in_set_takeD)
      then show False using no0 by simp
    qed
    show "take 2 S1 \<noteq> ''0X''"
    proof
      assume "take 2 S1 = ''0X''"
      then have "CHR ''0'' \<in> set (take 2 S1)" by simp
      then have "CHR ''0'' \<in> set S1" by (rule in_set_takeD)
      then show False using no0 by simp
    qed
  qed
  have "\<And>c. c \<in> set S1 \<Longrightarrow> \<not> isRadixDigit 10 c"
    using sub assms isRadixDigit_10_digit by blast
  then have tw: "takeWhile (isRadixDigit 10) S1 = []"
    by (cases S1) simp_all
  have "parseInt a =
      (let hex = (take 2 S1 = ''0x'' \<or> take 2 S1 = ''0X'');
           R = (if hex then 16 else 10);
           S = (if hex then drop 2 S1 else S1);
           Z = takeWhile (isRadixDigit R) S
       in if Z = [] then NaN
          else roundToDouble ((if S0 \<noteq> [] \<and> hd S0 = CHR ''-'' then - 1 else 1) * mathInt R Z))"
    unfolding parseInt_def S0_def S1_def Let_def by (rule refl)
  also have "\<dots> = NaN"
    unfolding Let_def by (simp only: nohex tw simp_thms if_False if_True)
  finally show ?thesis .
qed

lemma scaleLabels_parse: "map_of scaleLabels a = Some v \<Longrightarrow> parseInt a \<noteq> NaN"
  by (auto simp: scaleLabels_def parseInt_1_5 split: if_splits)

lemma toRow_answer:
  "answer (toRow (k, a)) =
     (case getProperty scaleLabels a of None \<Rightarrow> Str a | Some v \<Rightarrow> if truthy v then v else Str a)"
  by (simp add: toRow_def Let_def split: option.splits)

lemma toRow_score: "score (toRow (k, a)) = parseInt a"
  by (simp add: toRow_def Let_def)

lemma answer_verbatim:
  "map_of scaleLabels a = None \<Longrightarrow> a \<notin> set Object_prototype \<Longrightarrow> answer (toRow (k, a)) = Str a"
  by (simp add: toRow_answer getProperty_def)

lemma answer_from_table:
  "answer (toRow (k, ''1'')) = Str ''Very Poor''" "answer (toRow (k, ''2'')) = Str ''Poor''"
  "answer (toRow (k, ''3'')) = Str ''Fair''" "answer (toRow (k, ''4'')) = Str ''Good''"
  "answer (toRow (k, ''5'')) = Str ''Excellent''"
  by (simp_all add: toRow_answer getProperty_def scaleLabels_def)

text \<open>
  C8. The answer label is \<open>scaleLabels[answer] || answer\<close>. The codes 1 to 5 give their
  labels (\<open>answer_from_table\<close>) and a code that names no member of \<open>Object.prototype\<close>
  is shown as it is (\<open>answer_verbatim\<close>), but the code \<open>constructor\<close> is outside 1 to 5
  and its label is the inherited member, not the code.
\<close>

theorem answer_inherited_member:
  "answer (toRow (''1'', ''constructor'')) = Inherited ''constructor'' \<and>
   answer (toRow (''1'', ''constructor'')) \<noteq> Str ''constructor''"
  by (simp add: toRow_answer getProperty_def scaleLabels_def Object_prototype_def)

lemma unparseable_score:
  assumes "parseInt a = NaN"
  shows "score (toRow (k, a)) = NaN \<and> scoreCell e (toRow (k, a)) = ''NaN/5''"
  using assms by (simp add: scoreCell_def toRow_score Number_toString_def)

lemma unparseable_label:
  assumes "parseInt a = NaN" and "a \<notin> set Object_prototype"
  shows "answer (toRow (k, a)) = Str a"
proof -
  have "map_of scaleLabels a = None"
    using scaleLabels_parse [of a] assms(1) by (cases "map_of scaleLabels a") auto
  then show ?thesis
    using assms(2) by (rule answer_verbatim)
qed

text \<open>
  C10. An answer code that \<open>parseInt\<close> cannot read (so every code without a decimal
  digit, \<open>parseInt_no_digit\<close>) gives a row whose score is NaN and whose score cell reads
  \<open>NaN/5\<close> (\<open>unparseable_score\<close>); the label falls back to the code when the code names
  no inherited member (\<open>unparseable_label\<close>). The codes \<open>constructor\<close> and \<open>__proto__\<close>
  cannot be read either, and their label is the inherited member, not the code.
\<close>

theorem unparseable_code_inherited_label:
  "parseInt ''constructor'' = NaN \<and>
   score (toRow (''1'', ''constructor'')) = NaN \<and>
   answer (toRow (''1'', ''constructor'')) = Inherited ''constructor'' \<and>
   parseInt ''__proto__'' = NaN \<and>
   score (toRow (''1'', ''__proto__'')) = NaN \<and>
   answer (toRow (''1'', ''__proto__'')) = Inherited ''__proto__''"
  by (simp add: toRow_score toRow_answer parseInt_samples getProperty_def scaleLabels_def
        Object_prototype_def)

end
